theory Spec2Isabelle
  imports Complex_Main
begin

text \<open>
  The registration and login backend of \<^verbatim>\<open>src/UI/server.js\<close>: a one-time password is
  issued for a pending registration and kept in \<^verbatim>\<open>OTP_STORE\<close> for five minutes
  (\<^verbatim>\<open>POST /send-otp\<close>), a verification with that password inserts the account into the
  database and deletes the pending record (\<^verbatim>\<open>POST /verify-otp\<close>), and a login looks the
  credentials up (\<^verbatim>\<open>POST /login\<close>). The mailer is \<^verbatim>\<open>sendOTPEmail\<close> of
  \<^verbatim>\<open>src/unnamed/part_000\<close>.
\<close>

section \<open>Values\<close>

text \<open>
  The three handlers of \<^verbatim>\<open>src/UI/server.js\<close> destructure their inputs from
  \<^verbatim>\<open>req.body\<close>, the object that \<^verbatim>\<open>express.json()\<close> parsed. For the two OTP
  handlers a property of that object is modelled as a string, or as \<open>JUndefined\<close> when the
  body does not have it, and \<open>req.body\<close> as the function from property names to these
  values; the documents that a verification inserts are made of such values. The login
  handler hands its inputs on to the database as they are, so its request is modelled with
  the values of every JSON type (\<open>json_value\<close>, below).
\<close>

datatype jsval = JUndefined | JString string

type_synonym body = "string \<Rightarrow> jsval"

text \<open>\<open>json kvs\<close> is the body with the properties listed in \<open>kvs\<close> and no other.\<close>

definition json :: "(string \<times> string) list \<Rightarrow> body" where
  "json kvs k = (case map_of kvs k of None \<Rightarrow> JUndefined | Some v \<Rightarrow> JString v)"

text \<open>\<^verbatim>\<open>!v\<close>: \<^verbatim>\<open>undefined\<close> and the empty string are the falsy values of the model.\<close>

primrec falsy :: "jsval \<Rightarrow> bool" where
  "falsy JUndefined = True"
| "falsy (JString s) = (s = [])"

text \<open>
  \<^verbatim>\<open>OTP_STORE[email]\<close> converts \<open>email\<close> to a property key: a string is its own key,
  \<^verbatim>\<open>undefined\<close> becomes the key \<^verbatim>\<open>"undefined"\<close>.
\<close>

primrec ToPropertyKey :: "jsval \<Rightarrow> string" where
  "ToPropertyKey JUndefined = ''undefined''"
| "ToPropertyKey (JString s) = s"

text \<open>
  A property of the body of a login request: \<open>VUndefined\<close> when the body does not have it,
  else the JSON value it holds (a number as the real number it denotes, an object as the
  list of its properties).
\<close>

datatype json_value =
    VUndefined
  | VNull
  | VBoolean bool
  | VNumber real
  | VString string
  | VArray "json_value list"
  | VObject "(string \<times> json_value) list"

type_synonym login_body = "string \<Rightarrow> json_value"

text \<open>\<open>json_body kvs\<close> is the login body with the properties listed in \<open>kvs\<close> and no other.\<close>

definition json_body :: "(string \<times> json_value) list \<Rightarrow> login_body" where
  "json_body kvs k = (case map_of kvs k of None \<Rightarrow> VUndefined | Some v \<Rightarrow> v)"

text \<open>\<^verbatim>\<open>!v\<close> on these values: \<^verbatim>\<open>undefined\<close>, \<^verbatim>\<open>null\<close>, \<^verbatim>\<open>false\<close>,
  \<^verbatim>\<open>0\<close> and the empty string are falsy; every other number and string, \<^verbatim>\<open>true\<close>,
  and every array and object are not.\<close>

primrec falsy_value :: "json_value \<Rightarrow> bool" where
  "falsy_value VUndefined = True"
| "falsy_value VNull = True"
| "falsy_value (VBoolean b) = (\<not> b)"
| "falsy_value (VNumber x) = (x = 0)"
| "falsy_value (VString s) = (s = [])"
| "falsy_value (VArray xs) = False"
| "falsy_value (VObject kvs) = False"

section \<open>Data model\<close>

text \<open>
  The four properties that the pending record's \<open>data\<close> and the inserted document share
  (\<^verbatim>\<open>name\<close>, \<^verbatim>\<open>email\<close>, \<^verbatim>\<open>phone\<close>, \<^verbatim>\<open>password\<close>) are one record; the
  \<open>data\<close> object adds \<^verbatim>\<open>role\<close> (\<^verbatim>\<open>server.js\<close> line 57), the document passed to
  \<^verbatim>\<open>insertOne\<close> adds \<^verbatim>\<open>createdAt\<close> (lines 102-108), and the stored document adds the
  identifier the database assigns, \<^verbatim>\<open>_id\<close>.
\<close>

record contact =
  name :: jsval
  email :: jsval
  phone :: jsval
  password :: jsval

record profile = contact +
  role :: jsval

record document = contact +
  createdAt :: int

record account = document +
  id' :: string

text \<open>The object literal of lines 54-58; \<open>expiresAt\<close> is in milliseconds, as \<^verbatim>\<open>Date.now()\<close>.\<close>

record pending =
  otp :: string
  expiresAt :: int
  data :: profile

text \<open>
  What a read of a property of \<^verbatim>\<open>OTP_STORE\<close>, or of one of the objects on its prototype
  chain, can give: \<^verbatim>\<open>undefined\<close>, a pending record, the string, number or \<open>data\<close> object
  held by a record, or a built-in of \<^verbatim>\<open>Object.prototype\<close> (a function, or
  \<^verbatim>\<open>Object.prototype\<close> itself).
\<close>

datatype property_value =
    JSUndefined
  | JSPending pending
  | JSString string
  | JSNumber int
  | JSData profile
  | JSBuiltin

primrec truthy :: "property_value \<Rightarrow> bool" where
  "truthy JSUndefined = False"
| "truthy (JSPending r) = True"
| "truthy (JSString s) = (s \<noteq> [])"
| "truthy (JSNumber n) = (n \<noteq> 0)"
| "truthy (JSData d) = True"
| "truthy JSBuiltin = True"

text \<open>The message that \<^verbatim>\<open>sendOTPEmail\<close> hands to the mail API (\<open>code\<close>: the OTP that the
  HTML body of the message shows).\<close>

record transac_email =
  to :: jsval
  subject :: string
  code :: string

text \<open>The calls to the collaborators, in the order the handlers make them.\<close>

datatype call =
    GenerateOTP
  | SendTransacEmail transac_email
  | InsertOne string document
  | FindOne string json_value json_value

text \<open>
  The state of the server. \<^verbatim>\<open>const OTP_STORE = {}\<close> (line 33) is an ordinary object:
  \<open>OTP_STORE\<close> holds its own properties and \<open>OTP_STORE_proto\<close> its prototype, \<open>None\<close> while
  that is still \<^verbatim>\<open>Object.prototype\<close>. \<open>kirana_system c\<close> is the collection \<open>c\<close> of the
  database of that name, in insertion order.
\<close>

record state =
  OTP_STORE :: "string \<rightharpoonup> pending"
  OTP_STORE_proto :: "pending option"
  kirana_system :: "string \<Rightarrow> account list"
  calls :: "call list"

text \<open>The JSON responses: \<^verbatim>\<open>{success: false, message}\<close>, \<^verbatim>\<open>{success: true, message}\<close>,
  \<^verbatim>\<open>{success: true, message, accountId, role}\<close> and
  \<^verbatim>\<open>{success: true, message, user: {id, name, email, phone, role}}\<close>.\<close>

datatype response =
    Failure string
  | Success string
  | AccountCreated string string jsval
  | LoginSuccess string string jsval jsval jsval json_value

primrec success :: "response \<Rightarrow> bool" where
  "success (Failure m) = False"
| "success (Success m) = True"
| "success (AccountCreated m i r) = True"
| "success (LoginSuccess m i n e p r) = True"

section \<open>The store object\<close>

text \<open>The property names of \<^verbatim>\<open>Object.prototype\<close>.\<close>

definition Object_prototype :: "string list" where
  "Object_prototype =
     [''constructor'', ''__defineGetter__'', ''__defineSetter__'', ''hasOwnProperty'',
      ''__lookupGetter__'', ''__lookupSetter__'', ''isPrototypeOf'', ''propertyIsEnumerable'',
      ''toString'', ''valueOf'', ''__proto__'', ''toLocaleString'']"

definition Object_prototype_get :: "string \<Rightarrow> property_value" where
  "Object_prototype_get k = (if k \<in> set Object_prototype then JSBuiltin else JSUndefined)"

text \<open>\<^verbatim>\<open>r[k]\<close> for a pending record \<open>r\<close>: its three own properties, then \<^verbatim>\<open>Object.prototype\<close>.\<close>

definition pending_get :: "pending \<Rightarrow> string \<Rightarrow> property_value" where
  "pending_get r k =
     (if k = ''otp'' then JSString (otp r)
      else if k = ''expiresAt'' then JSNumber (expiresAt r)
      else if k = ''data'' then JSData (data r)
      else Object_prototype_get k)"

text \<open>
  What \<^verbatim>\<open>OTP_STORE\<close> inherits under the name \<open>k\<close>. The accessor \<^verbatim>\<open>__proto__\<close> of
  \<^verbatim>\<open>Object.prototype\<close> returns the prototype of the object it is read on.
\<close>

definition OTP_STORE_inherited :: "state \<Rightarrow> string \<Rightarrow> property_value" where
  "OTP_STORE_inherited s k =
     (case OTP_STORE_proto s of
        None \<Rightarrow> Object_prototype_get k
      | Some p \<Rightarrow> if k = ''__proto__'' then JSPending p else pending_get p k)"

text \<open>\<^verbatim>\<open>OTP_STORE[k]\<close>: the own property, else the inherited one.\<close>

definition OTP_STORE_get :: "state \<Rightarrow> string \<Rightarrow> property_value" where
  "OTP_STORE_get s k =
     (case OTP_STORE s k of Some r \<Rightarrow> JSPending r | None \<Rightarrow> OTP_STORE_inherited s k)"

text \<open>
  \<^verbatim>\<open>OTP_STORE[k] = r\<close>: an assignment to \<^verbatim>\<open>__proto__\<close> on an object without an own
  property of that name runs the setter of \<^verbatim>\<open>Object.prototype\<close>, which replaces the
  prototype of the object; every other assignment writes an own property.
\<close>

definition OTP_STORE_set :: "state \<Rightarrow> string \<Rightarrow> pending \<Rightarrow> state" where
  "OTP_STORE_set s k r =
     (if k = ''__proto__'' \<and> OTP_STORE s k = None
      then s\<lparr>OTP_STORE_proto := Some r\<rparr>
      else s\<lparr>OTP_STORE := (OTP_STORE s)(k \<mapsto> r)\<rparr>)"

text \<open>\<^verbatim>\<open>delete OTP_STORE[k]\<close> removes an own property and nothing else.\<close>

definition OTP_STORE_delete :: "state \<Rightarrow> string \<Rightarrow> state" where
  "OTP_STORE_delete s k = s\<lparr>OTP_STORE := (OTP_STORE s)(k := None)\<rparr>"

section \<open>Collaborators\<close>

text \<open>
  Modelled from the spec: \<^verbatim>\<open>generateOTP\<close> (\<^verbatim>\<open>./otp/otpGenerator\<close>, not among the
  sources). The spec has it produce a numeric code of fixed length, 6 digits, returned as
  a string to preserve leading zeros; \<open>rnd\<close> is the random draw, of which the six lowest
  decimal digits are the code.
\<close>

primrec digits :: "nat \<Rightarrow> nat \<Rightarrow> string" where
  "digits 0 n = []"
| "digits (Suc k) n = digits k (n div 10) @ [''0123456789'' ! (n mod 10)]"

definition generateOTP :: "nat \<Rightarrow> string" where
  "generateOTP rnd = digits 6 rnd"

text \<open>\<^verbatim>\<open>sendOTPEmail(toEmail, otp)\<close> builds the message; whether the mail API then resolves or
  rejects is an input of the handler.\<close>

definition sendOTPEmail :: "jsval \<Rightarrow> string \<Rightarrow> transac_email" where
  "sendOTPEmail toEmail otp' = \<lparr>to = toEmail, subject = ''Your OTP Code'', code = otp'\<rparr>"

text \<open>The outcome of \<^verbatim>\<open>insertOne\<close>: the identifier assigned, or a rejection.\<close>

datatype insert_result = InsertedId string | InsertRejected

text \<open>
  The outcome of \<^verbatim>\<open>findOne\<close>: a document, null, or a rejection. The account store is a
  database outside the repository, and the handler passes it \<open>email\<close> and \<open>password\<close> of
  the request as the filter, whatever they are (line 145); what the database makes of the
  filter is not the handler's, so the outcome is an input of the handler.
\<close>

datatype find_result = Found account | NotFound | FindRejected

text \<open>The document as the collection holds it, with the identifier assigned to it.\<close>

definition stored :: "document \<Rightarrow> string \<Rightarrow> account" where
  "stored doc insertedId =
     \<lparr>name = name doc, email = email doc, phone = phone doc, password = password doc,
      createdAt = createdAt doc, id' = insertedId\<rparr>"

text \<open>
  What the account store answers when the filter is made of two strings, over documents
  whose fields are strings: the first document of the collection, in insertion order,
  whose \<open>email\<close> and \<open>password\<close> both equal the strings, or null. (A filter value that is
  an object is a query expression to the database, and matches by its operators.)
\<close>

definition findOne :: "account list \<Rightarrow> string \<Rightarrow> string \<Rightarrow> find_result" where
  "findOne docs e p =
     (case find (\<lambda>d. email d = JString e \<and> password d = JString p) docs of
        None \<Rightarrow> NotFound
      | Some d \<Rightarrow> Found d)"

section \<open>The handlers\<close>

text \<open>
  Each handler runs on the state and returns its response and the state it leaves. The
  clock readings and the outcomes of the awaited calls are arguments: \<open>rnd\<close> the draw of
  the OTP generator, \<open>now\<close> the value of \<^verbatim>\<open>Date.now()\<close>, \<open>delivered\<close> whether
  \<^verbatim>\<open>sendOTPEmail\<close> resolved. A handler is run to its end before the next one starts.
\<close>

text \<open>The record of lines 54-58, for the code \<open>otp'\<close> and the clock reading \<open>now\<close>.\<close>

definition pending_record :: "string \<Rightarrow> int \<Rightarrow> body \<Rightarrow> pending" where
  "pending_record otp' now body =
     \<lparr>otp = otp',
      expiresAt = now + 5 * 60 * 1000,
      data = \<lparr>name = body ''name'', email = body ''email'',
               phone = body ''phone'', password = body ''password'',
               role = body ''role''\<rparr>\<rparr>"

text \<open>\<^verbatim>\<open>POST /send-otp\<close>, lines 39-69.\<close>

definition send_otp :: "nat \<Rightarrow> int \<Rightarrow> bool \<Rightarrow> body \<Rightarrow> state \<Rightarrow> response \<times> state" where
  "send_otp rnd now delivered body s =
     (if falsy (body ''role'') \<or> falsy (body ''name'') \<or> falsy (body ''email'')
         \<or> falsy (body ''phone'') \<or> falsy (body ''password'')
      then (Failure ''All fields are required.'', s)
      else if body ''role'' \<notin> set [JString ''user'', JString ''shopkeeper'']
      then (Failure ''Invalid role.'', s)
      else
        let otp' = generateOTP rnd;
            s1 = s\<lparr>calls := calls s @ [GenerateOTP]\<rparr>;
            s2 = OTP_STORE_set s1 (ToPropertyKey (body ''email''))
                   (pending_record otp' now body);
            s3 = s2\<lparr>calls := calls s2
                        @ [SendTransacEmail (sendOTPEmail (body ''email'') otp')]\<rparr>
        in if delivered
           then (Success ''OTP sent successfully!'', s3)
           else (Failure ''Failed to send OTP.'', s3))"

text \<open>
  \<^verbatim>\<open>POST /verify-otp\<close>, lines 74-125. \<open>created\<close> is the clock reading of
  \<^verbatim>\<open>new Date()\<close>, \<open>inserted\<close> the outcome of \<^verbatim>\<open>insertOne\<close>. A value found under the
  key that is not a pending record has neither \<^verbatim>\<open>expiresAt\<close> nor \<^verbatim>\<open>otp\<close>: the
  comparison of line 88 with \<^verbatim>\<open>undefined\<close> is false, and \<^verbatim>\<open>undefined !== otp\<close> holds.
  The inserted document takes \<open>email\<close> from the request and the other properties from the
  record (line 97).
\<close>

definition verify_otp ::
    "int \<Rightarrow> int \<Rightarrow> insert_result \<Rightarrow> body \<Rightarrow> state \<Rightarrow> response \<times> state" where
  "verify_otp now created inserted body s =
     (if falsy (body ''email'') \<or> falsy (body ''otp'')
      then (Failure ''Email & OTP are required.'', s)
      else
        let key = ToPropertyKey (body ''email'');
            found = OTP_STORE_get s key
        in if \<not> truthy found
           then (Failure ''OTP not found. Please request again.'', s)
           else (case found of
             JSPending r \<Rightarrow>
               if now > expiresAt r
               then (Failure ''OTP expired.'', OTP_STORE_delete s key)
               else if JString (otp r) \<noteq> body ''otp''
               then (Failure ''Incorrect OTP.'', s)
               else
                 let collection = (if role (data r) = JString ''shopkeeper''
                                   then ''shopkeepers'' else ''users'');
                     doc = \<lparr>name = name (data r), email = body ''email'',
                            phone = phone (data r), password = password (data r),
                            createdAt = created\<rparr>;
                     s1 = s\<lparr>calls := calls s @ [InsertOne collection doc]\<rparr>
                 in (case inserted of
                       InsertRejected \<Rightarrow> (Failure ''Server error.'', s1)
                     | InsertedId insertedId \<Rightarrow>
                         (AccountCreated ''OTP Verified! Account created.'' insertedId
                            (role (data r)),
                          OTP_STORE_delete
                            (s1\<lparr>kirana_system := (kirana_system s1)
                                  (collection := kirana_system s1 collection
                                     @ [stored doc insertedId])\<rparr>)
                            key))
           | _ \<Rightarrow> (Failure ''Incorrect OTP.'', s)))"

text \<open>
  \<^verbatim>\<open>POST /login\<close>, lines 130-169. \<open>found\<close> is the outcome of the
  \<^verbatim>\<open>findOne\<close> of line 145 (a rejection is caught at line 165). \<open>role\<close> is compared
  with \<^verbatim>\<open>===\<close>: only the string \<^verbatim>\<open>"shopkeeper"\<close> selects \<open>shopkeepers\<close>.
\<close>

definition login :: "find_result \<Rightarrow> login_body \<Rightarrow> state \<Rightarrow> response \<times> state" where
  "login found body s =
     (if falsy_value (body ''role'') \<or> falsy_value (body ''email'')
         \<or> falsy_value (body ''password'')
      then (Failure ''All fields are required.'', s)
      else
        let collection = (if body ''role'' = VString ''shopkeeper''
                          then ''shopkeepers'' else ''users'');
            s1 = s\<lparr>calls := calls s
                       @ [FindOne collection (body ''email'') (body ''password'')]\<rparr>
        in (case found of
              FindRejected \<Rightarrow> (Failure ''Server error.'', s1)
            | NotFound \<Rightarrow> (Failure ''Invalid email or password.'', s1)
            | Found user \<Rightarrow>
                (LoginSuccess ''Login successful'' (id' user) (name user) (email user)
                   (phone user) (body ''role''),
                 s1)))"

section \<open>Requests and reachable states\<close>

text \<open>An issuance request that passes both checks of lines 43-49.\<close>

definition valid_request :: "body \<Rightarrow> bool" where
  "valid_request body =
     (\<not> (falsy (body ''role'') \<or> falsy (body ''name'') \<or> falsy (body ''email'')
          \<or> falsy (body ''phone'') \<or> falsy (body ''password''))
      \<and> body ''role'' \<in> set [JString ''user'', JString ''shopkeeper''])"

text \<open>The server starts with an empty store over whatever the database holds.\<close>

definition initial :: "(string \<Rightarrow> account list) \<Rightarrow> state" where
  "initial db = \<lparr>OTP_STORE = Map.empty, OTP_STORE_proto = None, kirana_system = db, calls = []\<rparr>"

text \<open>The states the server can be in: any sequence of requests, with any outcomes of the
  awaited calls, from the start.\<close>

inductive reachable :: "state \<Rightarrow> bool" where
  start: "reachable (initial db)"
| sent: "reachable s \<Longrightarrow> reachable (snd (send_otp rnd now delivered body s))"
| verified: "reachable s \<Longrightarrow> reachable (snd (verify_otp now created inserted body s))"
| logged_in: "reachable s \<Longrightarrow> reachable (snd (login found body s))"

text \<open>What holds of a record that line 54 wrote under the key \<open>k\<close>.\<close>

definition issued_for :: "string \<Rightarrow> pending \<Rightarrow> bool" where
  "issued_for k r = (k \<noteq> [] \<and> length (otp r) = 6 \<and> email (data r) = JString k)"

definition store_ok :: "state \<Rightarrow> bool" where
  "store_ok s =
     ((\<forall>k r. OTP_STORE s k = Some r \<longrightarrow> issued_for k r)
      \<and> (\<forall>p. OTP_STORE_proto s = Some p \<longrightarrow> issued_for ''__proto__'' p)
      \<and> OTP_STORE s ''__proto__'' = None)"

text \<open>The pending records that the store object holds: the values of its own properties
  and, once an issuance has replaced it, its prototype.\<close>

definition held :: "state \<Rightarrow> pending set" where
  "held s = ran (OTP_STORE s) \<union> set_option (OTP_STORE_proto s)"

text \<open>Requests for the examples: a registration, a verification attempt, a login.\<close>

definition signup :: "string \<Rightarrow> string \<Rightarrow> body" where
  "signup r e =
     json [(''role'', r), (''name'', ''Asha''), (''email'', e), (''phone'', ''9000000000''),
           (''password'', ''secret'')]"

definition attempt :: "string \<Rightarrow> string \<Rightarrow> body" where
  "attempt e c = json [(''email'', e), (''otp'', c)]"

definition credentials :: "string \<Rightarrow> string \<Rightarrow> string \<Rightarrow> login_body" where
  "credentials r e p =
     json_body [(''role'', VString r), (''email'', VString e), (''password'', VString p)]"

text \<open>A database with one account, in \<open>users\<close>.\<close>

definition one_user :: "string \<Rightarrow> account list" where
  "one_user c =
     (if c = ''users''
      then [\<lparr>name = JString ''Asha'', email = JString ''a@x.com'', phone = JString ''9000000000'',
             password = JString ''secret'', createdAt = 5, id' = ''id1''\<rparr>]
      else [])"

section \<open>Basic facts\<close>

lemma falsy_iff: "falsy v \<longleftrightarrow> v = JUndefined \<or> v = JString []"
  by (cases v) auto

lemma length_digits: "length (digits k n) = k"
  by (induction k arbitrary: n) auto

lemma length_generateOTP: "length (generateOTP rnd) = 6"
  by (simp add: generateOTP_def length_digits)

lemma generateOTP_123456: "generateOTP 123456 = ''123456''"
proof -
  have six: "(6::nat) = Suc (Suc (Suc (Suc (Suc (Suc 0)))))" by simp
  show ?thesis unfolding generateOTP_def six by simp
qed

lemma get_pending_cases:
  "OTP_STORE_get s k = JSPending r \<longleftrightarrow>
     OTP_STORE s k = Some r \<or> (OTP_STORE s k = None \<and> k = ''__proto__'' \<and> OTP_STORE_proto s = Some r)"
  by (auto simp: OTP_STORE_get_def OTP_STORE_inherited_def pending_get_def Object_prototype_get_def
      split: option.splits)

lemma valid_request_email:
  "valid_request body \<Longrightarrow> \<exists>e. body ''email'' = JString e \<and> e \<noteq> []"
  by (cases "body ''email''") (auto simp: valid_request_def)

lemma send_otp_invalid:
  "\<not> valid_request body \<Longrightarrow> snd (send_otp rnd now delivered body s) = s"
  by (auto simp: send_otp_def valid_request_def)

lemma send_otp_valid:
  assumes "valid_request body" and "body ''email'' = JString e"
  shows "send_otp rnd now delivered body s =
           (if delivered then Success ''OTP sent successfully!'' else Failure ''Failed to send OTP.'',
            (OTP_STORE_set (s\<lparr>calls := calls s @ [GenerateOTP]\<rparr>) e
               (pending_record (generateOTP rnd) now body))
             \<lparr>calls := calls s @ [GenerateOTP,
                                    SendTransacEmail (sendOTPEmail (JString e) (generateOTP rnd))]\<rparr>)"
  using assms by (simp add: send_otp_def valid_request_def Let_def OTP_STORE_set_def)

lemma issued_for_pending_record:
  "e \<noteq> [] \<Longrightarrow> body ''email'' = JString e \<Longrightarrow> issued_for e (pending_record (generateOTP rnd) now body)"
  by (simp add: issued_for_def pending_record_def length_generateOTP)

lemma get_set_same: "OTP_STORE_get (OTP_STORE_set s k r) k = JSPending r"
  by (auto simp: OTP_STORE_get_def OTP_STORE_set_def OTP_STORE_inherited_def)

lemma get_calls: "OTP_STORE_get (s\<lparr>calls := c\<rparr>) k = OTP_STORE_get s k"
  by (simp add: OTP_STORE_get_def OTP_STORE_inherited_def split: option.splits)

lemma send_otp_get:
  "valid_request body \<Longrightarrow> body ''email'' = JString e \<Longrightarrow>
   OTP_STORE_get (snd (send_otp rnd now delivered body s)) e
     = JSPending (pending_record (generateOTP rnd) now body)"
  by (simp add: send_otp_valid get_calls get_set_same)

lemma valid_signup:
  "r \<in> set [''user'', ''shopkeeper''] \<Longrightarrow> e \<noteq> [] \<Longrightarrow> valid_request (signup r e)"
  by (auto simp: valid_request_def signup_def json_def)

lemma signup_email: "signup r e ''email'' = JString e"
  by (simp add: signup_def json_def)

lemma attempt_simps: "attempt e c ''email'' = JString e" "attempt e c ''otp'' = JString c"
  by (simp_all add: attempt_def json_def)

lemma verify_otp_found:
  assumes "body ''email'' = JString e" and "e \<noteq> []" and "\<not> falsy (body ''otp'')"
    and "OTP_STORE_get s e = JSPending r"
  shows "verify_otp now created inserted body s =
     (if now > expiresAt r then (Failure ''OTP expired.'', OTP_STORE_delete s e)
      else if JString (otp r) \<noteq> body ''otp'' then (Failure ''Incorrect OTP.'', s)
      else
        let collection = (if role (data r) = JString ''shopkeeper''
                          then ''shopkeepers'' else ''users'');
            doc = \<lparr>name = name (data r), email = JString e,
                   phone = phone (data r), password = password (data r),
                   createdAt = created\<rparr>;
            s1 = s\<lparr>calls := calls s @ [InsertOne collection doc]\<rparr>
        in (case inserted of
              InsertRejected \<Rightarrow> (Failure ''Server error.'', s1)
            | InsertedId insertedId \<Rightarrow>
                (AccountCreated ''OTP Verified! Account created.'' insertedId (role (data r)),
                 OTP_STORE_delete
                   (s1\<lparr>kirana_system := (kirana_system s1)
                         (collection := kirana_system s1 collection @ [stored doc insertedId])\<rparr>)
                   e)))"
  using assms by (simp add: verify_otp_def Let_def)

lemma verify_otp_not_pending:
  assumes "body ''email'' = JString e" and "\<forall>r. OTP_STORE_get s e \<noteq> JSPending r"
  shows "\<not> success (fst (verify_otp now created inserted body s))"
    and "snd (verify_otp now created inserted body s) = s"
  using assms by (auto simp: verify_otp_def Let_def split: property_value.splits)

subsection \<open>The invariant of the store\<close>

lemma store_okI:
  assumes "\<And>k r. OTP_STORE s k = Some r \<Longrightarrow> issued_for k r"
    and "\<And>p. OTP_STORE_proto s = Some p \<Longrightarrow> issued_for ''__proto__'' p"
    and "OTP_STORE s ''__proto__'' = None"
  shows "store_ok s"
  unfolding store_ok_def using assms by blast

lemma store_ok_own: "store_ok s \<Longrightarrow> OTP_STORE s k = Some r \<Longrightarrow> issued_for k r"
  unfolding store_ok_def by blast

lemma store_ok_proto: "store_ok s \<Longrightarrow> OTP_STORE_proto s = Some p \<Longrightarrow> issued_for ''__proto__'' p"
  unfolding store_ok_def by blast

lemma store_ok_no_own_proto: "store_ok s \<Longrightarrow> OTP_STORE s ''__proto__'' = None"
  unfolding store_ok_def by blast

lemma store_ok_get:
  assumes "store_ok s" and "OTP_STORE_get s k = JSPending r"
  shows "issued_for k r"
  using assms(2) store_ok_own [OF assms(1)] store_ok_proto [OF assms(1)]
  unfolding get_pending_cases by blast

lemma store_ok_initial: "store_ok (initial db)"
  by (rule store_okI) (simp_all add: initial_def)

lemma store_ok_set:
  assumes "store_ok s" and "issued_for k r"
  shows "store_ok (OTP_STORE_set s k r)"
proof (cases "k = ''__proto__''")
  case True
  then have eq: "OTP_STORE_set s k r = s\<lparr>OTP_STORE_proto := Some r\<rparr>"
    by (simp add: OTP_STORE_set_def store_ok_no_own_proto [OF assms(1)])
  show ?thesis
    unfolding eq
  proof (rule store_okI)
    fix k' r' assume "OTP_STORE (s\<lparr>OTP_STORE_proto := Some r\<rparr>) k' = Some r'"
    then show "issued_for k' r'" using store_ok_own [OF assms(1)] by simp
  next
    fix p assume "OTP_STORE_proto (s\<lparr>OTP_STORE_proto := Some r\<rparr>) = Some p"
    then show "issued_for ''__proto__'' p" using assms(2) True by simp
  next
    show "OTP_STORE (s\<lparr>OTP_STORE_proto := Some r\<rparr>) ''__proto__'' = None"
      using store_ok_no_own_proto [OF assms(1)] by simp
  qed
next
  case False
  then have eq: "OTP_STORE_set s k r = s\<lparr>OTP_STORE := (OTP_STORE s)(k \<mapsto> r)\<rparr>"
    by (simp add: OTP_STORE_set_def)
  show ?thesis
    unfolding eq
  proof (rule store_okI)
    fix k' r' assume "OTP_STORE (s\<lparr>OTP_STORE := (OTP_STORE s)(k \<mapsto> r)\<rparr>) k' = Some r'"
    then show "issued_for k' r'"
      using store_ok_own [OF assms(1), of k' r'] assms(2) by (cases "k' = k") simp_all
  next
    fix p assume "OTP_STORE_proto (s\<lparr>OTP_STORE := (OTP_STORE s)(k \<mapsto> r)\<rparr>) = Some p"
    then show "issued_for ''__proto__'' p" using store_ok_proto [OF assms(1)] by simp
  next
    show "OTP_STORE (s\<lparr>OTP_STORE := (OTP_STORE s)(k \<mapsto> r)\<rparr>) ''__proto__'' = None"
      using store_ok_no_own_proto [OF assms(1)] False by simp
  qed
qed

lemma store_ok_calls: "store_ok (s\<lparr>calls := c\<rparr>) = store_ok s"
  by (simp add: store_ok_def)

lemma store_ok_kirana_system: "store_ok (s\<lparr>kirana_system := c\<rparr>) = store_ok s"
  by (simp add: store_ok_def)

lemma store_ok_send_otp:
  assumes "store_ok s" shows "store_ok (snd (send_otp rnd now delivered body s))"
proof (cases "valid_request body")
  case False
  then show ?thesis using assms by (simp add: send_otp_invalid)
next
  case True
  then obtain e where e: "body ''email'' = JString e" "e \<noteq> []"
    using valid_request_email by blast
  have "store_ok (OTP_STORE_set (s\<lparr>calls := calls s @ [GenerateOTP]\<rparr>) e
                   (pending_record (generateOTP rnd) now body))"
    using assms e by (intro store_ok_set issued_for_pending_record) (simp_all add: store_ok_calls)
  then show ?thesis
    by (simp add: send_otp_valid [OF True e(1)] store_ok_calls)
qed

lemma store_ok_delete:
  assumes "store_ok s" shows "store_ok (OTP_STORE_delete s k)"
  unfolding OTP_STORE_delete_def
proof (rule store_okI)
  fix k' r' assume "OTP_STORE (s\<lparr>OTP_STORE := (OTP_STORE s)(k := None)\<rparr>) k' = Some r'"
  then show "issued_for k' r'"
    using store_ok_own [OF assms, of k' r'] by (cases "k' = k") simp_all
next
  fix p assume "OTP_STORE_proto (s\<lparr>OTP_STORE := (OTP_STORE s)(k := None)\<rparr>) = Some p"
  then show "issued_for ''__proto__'' p" using store_ok_proto [OF assms] by simp
next
  show "OTP_STORE (s\<lparr>OTP_STORE := (OTP_STORE s)(k := None)\<rparr>) ''__proto__'' = None"
    using store_ok_no_own_proto [OF assms] by simp
qed

lemma store_ok_shrink:
  assumes "store_ok s" and "OTP_STORE s' \<subseteq>\<^sub>m OTP_STORE s"
    and "OTP_STORE_proto s' = OTP_STORE_proto s"
  shows "store_ok s'"
proof (rule store_okI)
  fix k r assume "OTP_STORE s' k = Some r"
  then have "OTP_STORE s k = Some r"
    using assms(2) by (auto simp: map_le_def dom_def)
  then show "issued_for k r" by (rule store_ok_own [OF assms(1)])
next
  fix p assume "OTP_STORE_proto s' = Some p"
  then show "issued_for ''__proto__'' p" using store_ok_proto [OF assms(1)] assms(3) by simp
next
  show "OTP_STORE s' ''__proto__'' = None"
    using store_ok_no_own_proto [OF assms(1)] assms(2)
    by (cases "OTP_STORE s' ''__proto__''") (auto simp: map_le_def dom_def)
qed

lemma verify_otp_store:
  "OTP_STORE (snd (verify_otp now created inserted body s)) \<subseteq>\<^sub>m OTP_STORE s
   \<and> OTP_STORE_proto (snd (verify_otp now created inserted body s)) = OTP_STORE_proto s"
proof (cases "falsy (body ''email'') \<or> falsy (body ''otp'')")
  case True
  then show ?thesis by (simp add: verify_otp_def)
next
  case False
  show ?thesis
  proof (cases "OTP_STORE_get s (ToPropertyKey (body ''email''))")
    case (JSPending r)
    with False show ?thesis
      by (cases inserted) (simp_all add: verify_otp_def Let_def OTP_STORE_delete_def map_le_def)
  qed (use False in \<open>simp_all add: verify_otp_def Let_def\<close>)
qed

lemma store_ok_verify_otp:
  assumes "store_ok s" shows "store_ok (snd (verify_otp now created inserted body s))"
  using assms verify_otp_store [of now created inserted body s] by (blast intro: store_ok_shrink)

lemma login_state:
  "snd (login found body s) = s\<lparr>calls := calls (snd (login found body s))\<rparr>"
  by (simp add: login_def Let_def split: find_result.split)

lemma store_ok_login:
  assumes "store_ok s" shows "store_ok (snd (login found body s))"
  using assms by (subst login_state) (simp only: store_ok_calls)

lemma reachable_store_ok: "reachable s \<Longrightarrow> store_ok s"
  by (induction rule: reachable.induct)
     (simp_all add: store_ok_initial store_ok_send_otp store_ok_verify_otp store_ok_login)

section \<open>Issuance\<close>

lemma send_otp_rejected:
  assumes "\<not> valid_request body"
  shows "send_otp rnd now delivered body s = (Failure ''All fields are required.'', s)
         \<or> send_otp rnd now delivered body s = (Failure ''Invalid role.'', s)"
  using assms by (auto simp: send_otp_def valid_request_def)

lemma absent_not_valid:
  assumes "f \<in> set [''role'', ''name'', ''email'', ''phone'', ''password'']" and "body f = JUndefined"
  shows "\<not> valid_request body"
  using assms by (auto simp: valid_request_def)

text \<open>
  C6. An issuance request in which one of \<open>role\<close>, \<open>name\<close>, \<open>email\<close>, \<open>phone\<close>,
  \<open>password\<close> is absent, or whose \<open>role\<close> is neither \<open>user\<close> nor \<open>shopkeeper\<close>, is
  answered with a validation failure, and the state is left as it was: no call to the OTP
  generator or to the mailer is made and the store is not written.
\<close>

theorem C6_validation_error:
  assumes "(\<exists>f \<in> set [''role'', ''name'', ''email'', ''phone'', ''password'']. body f = JUndefined)
           \<or> body ''role'' \<notin> set [JString ''user'', JString ''shopkeeper'']"
  shows "(fst (send_otp rnd now delivered body s) = Failure ''All fields are required.''
          \<or> fst (send_otp rnd now delivered body s) = Failure ''Invalid role.'')
         \<and> snd (send_otp rnd now delivered body s) = s"
proof -
  have "\<not> valid_request body"
    using assms absent_not_valid [of _ body] by (auto simp: valid_request_def)
  from send_otp_rejected [OF this, of rnd now delivered s] show ?thesis
    by auto
qed

theorem C6_validation_error_witness:
  "json [(''role'', ''user''), (''name'', ''Asha''), (''email'', ''a@x.com'')] ''phone'' = JUndefined
   \<and> send_otp 123456 1000 True
         (json [(''role'', ''user''), (''name'', ''Asha''), (''email'', ''a@x.com'')])
         (initial (\<lambda>c. []))
       = (Failure ''All fields are required.'', initial (\<lambda>c. []))"
proof -
  let ?b = "json [(''role'', ''user''), (''name'', ''Asha''), (''email'', ''a@x.com'')]"
  have absent: "?b ''phone'' = JUndefined" by (simp add: json_def)
  then have "(\<exists>f \<in> set [''role'', ''name'', ''email'', ''phone'', ''password'']. ?b f = JUndefined)
           \<or> ?b ''role'' \<notin> set [JString ''user'', JString ''shopkeeper'']"
    by simp
  from C6_validation_error [OF this, of 123456 1000 True "initial (\<lambda>c. [])"]
  have "snd (send_otp 123456 1000 True ?b (initial (\<lambda>c. []))) = initial (\<lambda>c. [])" by simp
  moreover have "fst (send_otp 123456 1000 True ?b (initial (\<lambda>c. []))) = Failure ''All fields are required.''"
    by (simp add: send_otp_def json_def)
  ultimately show ?thesis using absent by (simp add: prod_eq_iff)
qed

text \<open>
  C7. When the mailer fails on a valid issuance request, the response is the delivery
  failure, and the record written before the send is still what the store gives for that
  email.
\<close>

theorem C7_record_stays_when_mail_fails:
  assumes "valid_request body"
  shows "fst (send_otp rnd now False body s) = Failure ''Failed to send OTP.''
         \<and> OTP_STORE_get (snd (send_otp rnd now False body s)) (ToPropertyKey (body ''email''))
             = JSPending (pending_record (generateOTP rnd) now body)
         \<and> calls (snd (send_otp rnd now False body s))
             = calls s @ [GenerateOTP,
                          SendTransacEmail (sendOTPEmail (body ''email'') (generateOTP rnd))]"
proof -
  obtain e where e: "body ''email'' = JString e"
    using valid_request_email [OF assms] by blast
  show ?thesis
    using send_otp_get [OF assms e, of rnd now False s]
    by (simp add: send_otp_valid [OF assms e] e)
qed

theorem C7_record_stays_when_mail_fails_witness:
  "valid_request (signup ''user'' ''a@x.com'')
   \<and> fst (send_otp 123456 1000 False (signup ''user'' ''a@x.com'') (initial (\<lambda>c. [])))
       = Failure ''Failed to send OTP.''
   \<and> OTP_STORE_get (snd (send_otp 123456 1000 False (signup ''user'' ''a@x.com'') (initial (\<lambda>c. []))))
         ''a@x.com''
       = JSPending (pending_record ''123456'' 1000 (signup ''user'' ''a@x.com''))"
proof -
  have v: "valid_request (signup ''user'' ''a@x.com'')" by (simp add: valid_signup)
  from C7_record_stays_when_mail_fails [OF v, of 123456 1000 "initial (\<lambda>c. [])"] v
  show ?thesis by (simp add: signup_email generateOTP_123456)
qed

subsection \<open>One record per email\<close>

lemma held_cases:
  "r \<in> held s \<longleftrightarrow> (\<exists>k. OTP_STORE s k = Some r) \<or> OTP_STORE_proto s = Some r"
  by (auto simp: held_def ran_def)

lemma get_held: "OTP_STORE_get s k = JSPending r \<Longrightarrow> r \<in> held s"
  unfolding get_pending_cases held_cases by blast

lemma held_email_own:
  assumes "store_ok s" and "OTP_STORE s k = Some r"
  shows "email (data r) = JString k \<and> k \<noteq> ''__proto__''"
  using store_ok_own [OF assms] store_ok_no_own_proto [OF assms(1)] assms(2)
  by (auto simp: issued_for_def)

lemma held_email_proto:
  assumes "store_ok s" and "OTP_STORE_proto s = Some r"
  shows "email (data r) = JString ''__proto__''"
  using store_ok_proto [OF assms] by (simp add: issued_for_def)

lemma held_unique:
  assumes ok: "store_ok s" and r: "r \<in> held s" and r': "r' \<in> held s"
    and same: "email (data r) = email (data r')"
  shows "r = r'"
proof -
  consider (own) k where "OTP_STORE s k = Some r" | (proto) "OTP_STORE_proto s = Some r"
    using r unfolding held_cases by blast
  then show ?thesis
  proof cases
    case (own k)
    note k = held_email_own [OF ok own]
    consider (own') k' where "OTP_STORE s k' = Some r'" | (proto') "OTP_STORE_proto s = Some r'"
      using r' unfolding held_cases by blast
    then show ?thesis
    proof cases
      case (own' k')
      with held_email_own [OF ok own'] k same have "k' = k" by simp
      with own own' show ?thesis by simp
    next
      case proto'
      with held_email_proto [OF ok proto'] k same show ?thesis by auto
    qed
  next
    case proto
    note p = held_email_proto [OF ok proto]
    consider (own') k' where "OTP_STORE s k' = Some r'" | (proto') "OTP_STORE_proto s = Some r'"
      using r' unfolding held_cases by blast
    then show ?thesis
    proof cases
      case (own' k')
      with held_email_own [OF ok own'] p same show ?thesis by auto
    next
      case proto'
      with proto show ?thesis by simp
    qed
  qed
qed

text \<open>
  C4. In every state the server can reach, the store holds at most one pending record
  per email address; and a valid issuance leaves, for its email, exactly the record it
  built from its own request, whatever record (of whatever role or profile) the store held
  for that email before.
\<close>

theorem C4_one_pending_record_per_email:
  assumes "reachable s" and "valid_request body"
  shows "(\<forall>r \<in> held s. \<forall>r' \<in> held s. email (data r) = email (data r') \<longrightarrow> r = r')
         \<and> OTP_STORE_get (snd (send_otp rnd now delivered body s)) (ToPropertyKey (body ''email''))
             = JSPending (pending_record (generateOTP rnd) now body)
         \<and> (\<forall>r \<in> held (snd (send_otp rnd now delivered body s)).
               email (data r) = body ''email'' \<longrightarrow> r = pending_record (generateOTP rnd) now body)"
proof -
  let ?s' = "snd (send_otp rnd now delivered body s)"
  let ?new = "pending_record (generateOTP rnd) now body"
  obtain e where e: "body ''email'' = JString e"
    using valid_request_email [OF assms(2)] by blast
  have got: "OTP_STORE_get ?s' (ToPropertyKey (body ''email'')) = JSPending ?new"
    using send_otp_get [OF assms(2) e] e by simp
  have ok: "store_ok s" by (rule reachable_store_ok [OF assms(1)])
  have ok': "store_ok ?s'" by (rule store_ok_send_otp [OF ok])
  have new: "?new \<in> held ?s'" by (rule get_held [OF got])
  have "email (data ?new) = body ''email''" by (simp add: pending_record_def)
  then have "\<forall>r \<in> held ?s'. email (data r) = body ''email'' \<longrightarrow> r = ?new"
    using held_unique [OF ok' _ new] by simp
  moreover have "\<forall>r \<in> held s. \<forall>r' \<in> held s. email (data r) = email (data r') \<longrightarrow> r = r'"
    using held_unique [OF ok] by blast
  ultimately show ?thesis using got by blast
qed

theorem C4_one_pending_record_per_email_witness:
  "reachable (snd (send_otp 123456 1000 True (signup ''user'' ''a@x.com'') (initial (\<lambda>c. []))))
   \<and> valid_request (signup ''shopkeeper'' ''a@x.com'')
   \<and> OTP_STORE_get (snd (send_otp 123456 1000 True (signup ''user'' ''a@x.com'') (initial (\<lambda>c. []))))
         ''a@x.com''
       = JSPending (pending_record ''123456'' 1000 (signup ''user'' ''a@x.com''))
   \<and> OTP_STORE_get
         (snd (send_otp 7 2000 True (signup ''shopkeeper'' ''a@x.com'')
            (snd (send_otp 123456 1000 True (signup ''user'' ''a@x.com'') (initial (\<lambda>c. []))))))
         ''a@x.com''
       = JSPending (pending_record (generateOTP 7) 2000 (signup ''shopkeeper'' ''a@x.com''))"
proof -
  let ?s1 = "snd (send_otp 123456 1000 True (signup ''user'' ''a@x.com'') (initial (\<lambda>c. [])))"
  have r: "reachable ?s1" by (intro reachable.sent reachable.start)
  have v1: "valid_request (signup ''user'' ''a@x.com'')" by (simp add: valid_signup)
  have v2: "valid_request (signup ''shopkeeper'' ''a@x.com'')" by (simp add: valid_signup)
  have first: "OTP_STORE_get ?s1 ''a@x.com''
                 = JSPending (pending_record ''123456'' 1000 (signup ''user'' ''a@x.com''))"
    using send_otp_get [OF v1 signup_email, of 123456 1000 True "initial (\<lambda>c. [])"]
    by (simp add: generateOTP_123456)
  from C4_one_pending_record_per_email [OF r v2, of 7 2000 True] r v2 first
  show ?thesis by (simp add: signup_email)
qed

text \<open>
  C5 (as the code has it). A pending record has no \<open>issuedAt\<close> property. The record that
  a valid issuance stores at the clock reading \<open>now\<close> carries
  \<open>expiresAt = now + 5 * 60 * 1000\<close> milliseconds.
\<close>

theorem C5_expiresAt_five_minutes_after_issuance:
  assumes "valid_request body"
  shows "\<exists>r. OTP_STORE_get (snd (send_otp rnd now delivered body s)) (ToPropertyKey (body ''email''))
               = JSPending r
             \<and> expiresAt r = now + 5 * 60 * 1000
             \<and> pending_get r ''issuedAt'' = JSUndefined"
proof -
  obtain e where e: "body ''email'' = JString e"
    using valid_request_email [OF assms] by blast
  have "OTP_STORE_get (snd (send_otp rnd now delivered body s)) (ToPropertyKey (body ''email''))
          = JSPending (pending_record (generateOTP rnd) now body)"
    using send_otp_get [OF assms e] e by simp
  moreover have "expiresAt (pending_record (generateOTP rnd) now body) = now + 5 * 60 * 1000"
    by (simp add: pending_record_def)
  moreover have "pending_get (pending_record (generateOTP rnd) now body) ''issuedAt'' = JSUndefined"
    by (simp add: pending_get_def Object_prototype_get_def Object_prototype_def)
  ultimately show ?thesis by blast
qed

theorem C5_expiresAt_five_minutes_after_issuance_witness:
  "valid_request (signup ''user'' ''a@x.com'')
   \<and> (\<exists>r. OTP_STORE_get (snd (send_otp 123456 1000 True (signup ''user'' ''a@x.com'')
                              (initial (\<lambda>c. [])))) ''a@x.com'' = JSPending r
            \<and> expiresAt r = 301000)"
proof -
  have v: "valid_request (signup ''user'' ''a@x.com'')" by (simp add: valid_signup)
  from C5_expiresAt_five_minutes_after_issuance [OF v, of 123456 1000 True "initial (\<lambda>c. [])"] v
  show ?thesis by (auto simp: signup_email)
qed

text \<open>C5 as stated fails: the record just issued, read at \<open>issuedAt\<close>, gives
  \<^verbatim>\<open>undefined\<close>.\<close>

theorem C5_no_issuedAt_counterexample:
  "OTP_STORE_get (snd (send_otp 123456 1000 True (signup ''user'' ''a@x.com'') (initial (\<lambda>c. []))))
       ''a@x.com''
     = JSPending (pending_record ''123456'' 1000 (signup ''user'' ''a@x.com''))
   \<and> pending_get (pending_record ''123456'' 1000 (signup ''user'' ''a@x.com'')) ''issuedAt''
     = JSUndefined"
proof -
  have v: "valid_request (signup ''user'' ''a@x.com'')" by (simp add: valid_signup)
  have "OTP_STORE_get (snd (send_otp 123456 1000 True (signup ''user'' ''a@x.com'') (initial (\<lambda>c. []))))
           ''a@x.com''
         = JSPending (pending_record ''123456'' 1000 (signup ''user'' ''a@x.com''))"
    using send_otp_get [OF v signup_email, of 123456 1000 True "initial (\<lambda>c. [])"]
    by (simp add: generateOTP_123456)
  moreover have "pending_get (pending_record ''123456'' 1000 (signup ''user'' ''a@x.com'')) ''issuedAt''
                   = JSUndefined"
    by (simp add: pending_get_def Object_prototype_get_def Object_prototype_def)
  ultimately show ?thesis by simp
qed

section \<open>Verification\<close>

lemma issued_forD:
  assumes "reachable s" and "OTP_STORE_get s e = JSPending r"
  shows "e \<noteq> []" and "otp r \<noteq> []" and "email (data r) = JString e"
  using store_ok_get [OF reachable_store_ok [OF assms(1)] assms(2)]
  by (auto simp: issued_for_def)

lemma get_delete_other:
  "OTP_STORE_get (OTP_STORE_delete s k) k = OTP_STORE_inherited s k"
  by (simp add: OTP_STORE_get_def OTP_STORE_delete_def OTP_STORE_inherited_def)

lemma inherited_delete: "OTP_STORE_inherited (OTP_STORE_delete s k) k' = OTP_STORE_inherited s k'"
  by (simp add: OTP_STORE_delete_def OTP_STORE_inherited_def)



lemma verify_otp_expired:
  assumes "body ''email'' = JString e" and "e \<noteq> []" and "\<not> falsy (body ''otp'')"
    and "OTP_STORE_get s e = JSPending r" and "now > expiresAt r"
  shows "verify_otp now created inserted body s = (Failure ''OTP expired.'', OTP_STORE_delete s e)"
  using assms by (simp add: verify_otp_found [OF assms(1-4)])

text \<open>The collection that line 100 selects, and the document of lines 102-108.\<close>

lemma verify_otp_created:
  assumes "body ''email'' = JString e" and "e \<noteq> []" and "otp r \<noteq> []"
    and "OTP_STORE_get s e = JSPending r" and "\<not> now > expiresAt r"
    and "body ''otp'' = JString (otp r)"
    and "collection = (if role (data r) = JString ''shopkeeper'' then ''shopkeepers'' else ''users'')"
    and "doc = \<lparr>name = name (data r), email = JString e, phone = phone (data r),
                 password = password (data r), createdAt = created\<rparr>"
  shows "verify_otp now created (InsertedId insertedId) body s =
           (AccountCreated ''OTP Verified! Account created.'' insertedId (role (data r)),
            OTP_STORE_delete
              (s\<lparr>calls := calls s @ [InsertOne collection doc],
                 kirana_system := (kirana_system s)
                   (collection := kirana_system s collection @ [stored doc insertedId])\<rparr>)
              e)"
proof -
  have "\<not> falsy (body ''otp'')" using assms(3,6) by simp
  from verify_otp_found [OF assms(1,2) this assms(4), of now created "InsertedId insertedId"]
  show ?thesis using assms(5-8) by (simp add: Let_def)
qed

lemma verify_otp_rejected:
  assumes "body ''email'' = JString e" and "e \<noteq> []" and "otp r \<noteq> []"
    and "OTP_STORE_get s e = JSPending r" and "\<not> now > expiresAt r"
    and "body ''otp'' = JString (otp r)"
    and "collection = (if role (data r) = JString ''shopkeeper'' then ''shopkeepers'' else ''users'')"
    and "doc = \<lparr>name = name (data r), email = JString e, phone = phone (data r),
                 password = password (data r), createdAt = created\<rparr>"
  shows "verify_otp now created InsertRejected body s =
           (Failure ''Server error.'', s\<lparr>calls := calls s @ [InsertOne collection doc]\<rparr>)"
proof -
  have "\<not> falsy (body ''otp'')" using assms(3,6) by simp
  from verify_otp_found [OF assms(1,2) this assms(4), of now created InsertRejected]
  show ?thesis using assms(5-8) by (simp add: Let_def)
qed

text \<open>
  C9. When the record is found, unexpired and matched, and \<^verbatim>\<open>insertOne\<close> rejects, the
  response is the failure of line 123 and neither the store nor the collections change:
  the record is still there, and the same request succeeds once the insert goes through.
\<close>

theorem C9_record_kept_when_insert_fails:
  assumes "reachable s" and "body ''email'' = JString e" and "OTP_STORE_get s e = JSPending r"
    and "\<not> now > expiresAt r" and "body ''otp'' = JString (otp r)"
  shows "fst (verify_otp now created InsertRejected body s) = Failure ''Server error.''
         \<and> OTP_STORE (snd (verify_otp now created InsertRejected body s)) = OTP_STORE s
         \<and> OTP_STORE_proto (snd (verify_otp now created InsertRejected body s)) = OTP_STORE_proto s
         \<and> kirana_system (snd (verify_otp now created InsertRejected body s)) = kirana_system s
         \<and> OTP_STORE_get (snd (verify_otp now created InsertRejected body s)) e = JSPending r
         \<and> (\<forall>body' now' created' insertedId.
               body' ''email'' = JString e \<and> body' ''otp'' = JString (otp r)
               \<and> \<not> now' > expiresAt r \<longrightarrow>
               fst (verify_otp now' created' (InsertedId insertedId) body'
                      (snd (verify_otp now created InsertRejected body s)))
               = AccountCreated ''OTP Verified! Account created.'' insertedId (role (data r)))"
proof -
  note wf = issued_forD [OF assms(1,3)]
  let ?s' = "snd (verify_otp now created InsertRejected body s)"
  have rejected: "verify_otp now created InsertRejected body s =
      (Failure ''Server error.'',
       s\<lparr>calls := calls s @ [InsertOne (if role (data r) = JString ''shopkeeper'' then ''shopkeepers'' else ''users'')
         \<lparr>name = name (data r), email = JString e, phone = phone (data r),
          password = password (data r), createdAt = created\<rparr>]\<rparr>)"
    by (rule verify_otp_rejected [OF assms(2) wf(1,2) assms(3-5) refl refl])
  have still: "OTP_STORE_get ?s' e = JSPending r"
    using assms(3) by (simp add: rejected get_calls)
  have "fst (verify_otp now' created' (InsertedId insertedId) body' ?s')
          = AccountCreated ''OTP Verified! Account created.'' insertedId (role (data r))"
    if "body' ''email'' = JString e" and "body' ''otp'' = JString (otp r)"
      and "\<not> now' > expiresAt r" for body' now' created' insertedId
    using verify_otp_created [where body = body' and e = e and r = r and s = ?s' and now = now'
        and created = created' and insertedId = insertedId, OF that(1) wf(1,2) still that(3,2) refl refl]
    by simp
  then show ?thesis using still by (simp add: rejected)
qed

theorem C9_record_kept_when_insert_fails_witness:
  "reachable (snd (send_otp 123456 1000 True (signup ''user'' ''a@x.com'') (initial (\<lambda>c. []))))
   \<and> OTP_STORE_get (snd (send_otp 123456 1000 True (signup ''user'' ''a@x.com'') (initial (\<lambda>c. []))))
         ''a@x.com''
       = JSPending (pending_record ''123456'' 1000 (signup ''user'' ''a@x.com''))
   \<and> \<not> 2000 > expiresAt (pending_record ''123456'' 1000 (signup ''user'' ''a@x.com''))
   \<and> fst (verify_otp 2000 2001 InsertRejected (attempt ''a@x.com'' ''123456'')
              (snd (send_otp 123456 1000 True (signup ''user'' ''a@x.com'') (initial (\<lambda>c. [])))))
       = Failure ''Server error.''
   \<and> OTP_STORE_get
         (snd (verify_otp 2000 2001 InsertRejected (attempt ''a@x.com'' ''123456'')
                (snd (send_otp 123456 1000 True (signup ''user'' ''a@x.com'') (initial (\<lambda>c. []))))))
         ''a@x.com''
       = JSPending (pending_record ''123456'' 1000 (signup ''user'' ''a@x.com''))"
proof -
  let ?s1 = "snd (send_otp 123456 1000 True (signup ''user'' ''a@x.com'') (initial (\<lambda>c. [])))"
  let ?r = "pending_record ''123456'' 1000 (signup ''user'' ''a@x.com'')"
  have r: "reachable ?s1" by (intro reachable.sent reachable.start)
  have v: "valid_request (signup ''user'' ''a@x.com'')" by (simp add: valid_signup)
  have got: "OTP_STORE_get ?s1 ''a@x.com'' = JSPending ?r"
    using send_otp_get [OF v signup_email, of 123456 1000 True "initial (\<lambda>c. [])"]
    by (simp add: generateOTP_123456)
  have fresh: "\<not> 2000 > expiresAt ?r" by (simp add: pending_record_def)
  have code: "attempt ''a@x.com'' ''123456'' ''otp'' = JString (otp ?r)"
    by (simp add: attempt_simps pending_record_def)
  from C9_record_kept_when_insert_fails [OF r attempt_simps(1) got fresh code, of 2001] r got fresh
  show ?thesis by simp
qed





lemma inherited_initial: "OTP_STORE_inherited (initial db) k = Object_prototype_get k"
  by (simp add: OTP_STORE_inherited_def initial_def)

lemma inherited_send_otp:
  assumes "body ''email'' \<noteq> JString ''__proto__''"
  shows "OTP_STORE_inherited (snd (send_otp rnd now delivered body s)) k = OTP_STORE_inherited s k"
proof (cases "valid_request body")
  case False
  then show ?thesis by (simp add: send_otp_invalid)
next
  case True
  then obtain e where e: "body ''email'' = JString e"
    using valid_request_email by blast
  with assms have "e \<noteq> ''__proto__''" by simp
  then show ?thesis
    by (simp add: send_otp_valid [OF True e] OTP_STORE_inherited_def OTP_STORE_set_def)
qed




section \<open>Emails that name a property the store object inherits\<close>

lemma inherited_not_pending:
  "k \<noteq> ''__proto__'' \<Longrightarrow> OTP_STORE_inherited s k \<noteq> JSPending r"
  by (simp add: OTP_STORE_inherited_def pending_get_def Object_prototype_get_def split: option.split)

lemma inherited_frame:
  "OTP_STORE_inherited (s\<lparr>calls := c, kirana_system := d\<rparr>) k = OTP_STORE_inherited s k"
  by (simp add: OTP_STORE_inherited_def)

text \<open>
  For every email but \<^verbatim>\<open>__proto__\<close>, a verification with the record's code in time
  inserts one account, built from the record, into the collection of the record's role,
  deletes the record, and answers with the identifier and the role; after it, no
  verification for that email succeeds.
\<close>

lemma verify_otp_once:
  assumes "reachable s" and "body ''email'' = JString e" and "OTP_STORE_get s e = JSPending r"
    and "\<not> now > expiresAt r" and "body ''otp'' = JString (otp r)" and "e \<noteq> ''__proto__''"
    and "collection = (if role (data r) = JString ''shopkeeper'' then ''shopkeepers'' else ''users'')"
    and "s' = snd (verify_otp now created (InsertedId insertedId) body s)"
  shows "fst (verify_otp now created (InsertedId insertedId) body s)
           = AccountCreated ''OTP Verified! Account created.'' insertedId (role (data r))"
    and "kirana_system s' collection
           = kirana_system s collection
             @ [\<lparr>name = name (data r), email = email (data r), phone = phone (data r),
                 password = password (data r), createdAt = created, id' = insertedId\<rparr>]"
    and "c \<noteq> collection \<Longrightarrow> kirana_system s' c = kirana_system s c"
    and "OTP_STORE s' e = None"
    and "\<not> success (fst (verify_otp now' created' inserted' body s'))"
proof -
  note wf = issued_forD [OF assms(1,3)]
  let ?doc = "\<lparr>name = name (data r), email = JString e, phone = phone (data r),
               password = password (data r), createdAt = created\<rparr>"
  note run = verify_otp_created [OF assms(2) wf(1,2) assms(3,4,5,7) refl, of created insertedId]
  have s': "s' = OTP_STORE_delete
              (s\<lparr>calls := calls s @ [InsertOne collection ?doc],
                 kirana_system := (kirana_system s)
                   (collection := kirana_system s collection @ [stored ?doc insertedId])\<rparr>) e"
    by (simp add: assms(8) run)
  show "fst (verify_otp now created (InsertedId insertedId) body s)
           = AccountCreated ''OTP Verified! Account created.'' insertedId (role (data r))"
    by (simp add: run)
  show "kirana_system s' collection
           = kirana_system s collection
             @ [\<lparr>name = name (data r), email = email (data r), phone = phone (data r),
                 password = password (data r), createdAt = created, id' = insertedId\<rparr>]"
    by (simp add: s' OTP_STORE_delete_def stored_def wf(3))
  show "kirana_system s' c = kirana_system s c" if "c \<noteq> collection"
    using that by (simp add: s' OTP_STORE_delete_def)
  show "OTP_STORE s' e = None"
    by (simp add: s' OTP_STORE_delete_def)
  have "OTP_STORE_get s' e \<noteq> JSPending r'" for r'
    using inherited_not_pending [OF assms(6), of s r']
    by (simp add: s' get_delete_other inherited_frame)
  then show "\<not> success (fst (verify_otp now' created' inserted' body s'))"
    using verify_otp_not_pending(1) [of body e s'] assms(2) by blast
qed

text \<open>
  C1 fails for the email \<^verbatim>\<open>__proto__\<close>. The issuance replaces the prototype of the
  store object instead of writing an own property, so \<^verbatim>\<open>delete OTP_STORE[email]\<close> at
  line 112 removes nothing: after a successful verification the record is still found,
  and a second verification with the same code succeeds and inserts a second account.
\<close>

theorem C1_proto_email_verified_twice:
  "OTP_STORE_get (snd (send_otp 123456 1000 False (signup ''user'' ''__proto__'') (initial (\<lambda>c. []))))
       ''__proto__''
     = JSPending (pending_record ''123456'' 1000 (signup ''user'' ''__proto__''))
   \<and> fst (verify_otp 2000 2001 (InsertedId ''id1'') (attempt ''__proto__'' ''123456'')
            (snd (send_otp 123456 1000 False (signup ''user'' ''__proto__'') (initial (\<lambda>c. [])))))
     = AccountCreated ''OTP Verified! Account created.'' ''id1'' (JString ''user'')
   \<and> OTP_STORE_get
         (snd (verify_otp 2000 2001 (InsertedId ''id1'') (attempt ''__proto__'' ''123456'')
            (snd (send_otp 123456 1000 False (signup ''user'' ''__proto__'') (initial (\<lambda>c. []))))))
         ''__proto__''
     = JSPending (pending_record ''123456'' 1000 (signup ''user'' ''__proto__''))
   \<and> fst (verify_otp 3000 3001 (InsertedId ''id2'') (attempt ''__proto__'' ''123456'')
            (snd (verify_otp 2000 2001 (InsertedId ''id1'') (attempt ''__proto__'' ''123456'')
               (snd (send_otp 123456 1000 False (signup ''user'' ''__proto__'') (initial (\<lambda>c. [])))))))
     = AccountCreated ''OTP Verified! Account created.'' ''id2'' (JString ''user'')
   \<and> map id' (kirana_system
         (snd (verify_otp 3000 3001 (InsertedId ''id2'') (attempt ''__proto__'' ''123456'')
            (snd (verify_otp 2000 2001 (InsertedId ''id1'') (attempt ''__proto__'' ''123456'')
               (snd (send_otp 123456 1000 False (signup ''user'' ''__proto__'') (initial (\<lambda>c. []))))))))
         ''users'')
     = [''id1'', ''id2'']"
proof -
  let ?s1 = "snd (send_otp 123456 1000 False (signup ''user'' ''__proto__'') (initial (\<lambda>c. [])))"
  let ?r = "pending_record ''123456'' 1000 (signup ''user'' ''__proto__'')"
  let ?b = "attempt ''__proto__'' ''123456''"
  let ?doc = "\<lambda>t. \<lparr>name = name (data ?r), email = JString ''__proto__'', phone = phone (data ?r),
                  password = password (data ?r), createdAt = t\<rparr>"
  have v: "valid_request (signup ''user'' ''__proto__'')" by (simp add: valid_signup)
  have got1: "OTP_STORE_get ?s1 ''__proto__'' = JSPending ?r"
    using send_otp_get [OF v signup_email, of 123456 1000 False "initial (\<lambda>c. [])"]
    by (simp add: generateOTP_123456)
  have proto1: "OTP_STORE_inherited ?s1 ''__proto__'' = JSPending ?r"
    by (simp add: send_otp_valid [OF v signup_email] OTP_STORE_set_def initial_def
        OTP_STORE_inherited_def generateOTP_123456)
  have role: "role (data ?r) = JString ''user''" by (simp add: pending_record_def signup_def json_def)
  have code: "?b ''otp'' = JString (otp ?r)" by (simp add: attempt_simps pending_record_def)
  have filled: "otp ?r \<noteq> []" by (simp add: pending_record_def)
  have fresh: "\<not> 2000 > expiresAt ?r" "\<not> 3000 > expiresAt ?r" by (simp_all add: pending_record_def)
  define s2 where "s2 = snd (verify_otp 2000 2001 (InsertedId ''id1'') ?b ?s1)"
  note run1 = verify_otp_created [OF attempt_simps(1) _ filled got1 fresh(1) code refl refl,
      of 2001 "''id1''"]
  have s2: "s2 = OTP_STORE_delete
      (?s1\<lparr>calls := calls ?s1 @ [InsertOne ''users'' (?doc 2001)],
           kirana_system := (kirana_system ?s1)
             (''users'' := kirana_system ?s1 ''users'' @ [stored (?doc 2001) ''id1''])\<rparr>)
      ''__proto__''"
    unfolding s2_def by (simp add: run1 role)
  have got2: "OTP_STORE_get s2 ''__proto__'' = JSPending ?r"
    by (simp add: s2 get_delete_other inherited_frame proto1)
  note run2 = verify_otp_created [OF attempt_simps(1) _ filled got2 fresh(2) code refl refl,
      of 3001 "''id2''"]
  have users1: "kirana_system ?s1 ''users'' = []"
    by (simp add: send_otp_valid [OF v signup_email] OTP_STORE_set_def initial_def)
  have "map id' (kirana_system (snd (verify_otp 3000 3001 (InsertedId ''id2'') ?b s2)) ''users'')
          = [''id1'', ''id2'']"
    by (simp add: run2 role OTP_STORE_delete_def) (simp add: s2 OTP_STORE_delete_def users1 stored_def)
  moreover have "fst (verify_otp 3000 3001 (InsertedId ''id2'') ?b s2)
                   = AccountCreated ''OTP Verified! Account created.'' ''id2'' (JString ''user'')"
    by (simp add: run2 role)
  moreover have "fst (verify_otp 2000 2001 (InsertedId ''id1'') ?b ?s1)
                   = AccountCreated ''OTP Verified! Account created.'' ''id1'' (JString ''user'')"
    by (simp add: run1 role)
  ultimately show ?thesis using got1 got2 unfolding s2_def by simp
qed

text \<open>What the same slip does on the expiry path: the expired record of \<^verbatim>\<open>__proto__\<close>
  is not deleted, and after the expired record of \<^verbatim>\<open>constructor\<close> is deleted the
  function inherited under that name is found in its place.\<close>

lemma expired_proto_record_stays:
  "verify_otp 400000 400001 inserted (attempt ''__proto__'' ''123456'')
       (snd (send_otp 123456 1000 False (signup ''user'' ''__proto__'') (initial (\<lambda>c. []))))
     = (Failure ''OTP expired.'',
        snd (send_otp 123456 1000 False (signup ''user'' ''__proto__'') (initial (\<lambda>c. []))))"
proof -
  let ?s1 = "snd (send_otp 123456 1000 False (signup ''user'' ''__proto__'') (initial (\<lambda>c. [])))"
  let ?r = "pending_record ''123456'' 1000 (signup ''user'' ''__proto__'')"
  have v: "valid_request (signup ''user'' ''__proto__'')" by (simp add: valid_signup)
  have got: "OTP_STORE_get ?s1 ''__proto__'' = JSPending ?r"
    using send_otp_get [OF v signup_email, of 123456 1000 False "initial (\<lambda>c. [])"]
    by (simp add: generateOTP_123456)
  have late: "400000 > expiresAt ?r" by (simp add: pending_record_def)
  have given: "\<not> falsy (attempt ''__proto__'' ''123456'' ''otp'')" by (simp add: attempt_simps)
  have same: "OTP_STORE_delete ?s1 ''__proto__'' = ?s1"
    by (simp add: send_otp_valid [OF v signup_email] OTP_STORE_set_def OTP_STORE_delete_def initial_def)
  show ?thesis
    using verify_otp_expired [OF attempt_simps(1) _ given got late, of 400001 inserted]
    by (simp add: same)
qed

lemma expired_constructor_then_mismatch:
  "verify_otp 400000 400001 inserted (attempt ''constructor'' ''123456'')
       (snd (send_otp 123456 1000 False (signup ''user'' ''constructor'') (initial (\<lambda>c. []))))
     = (Failure ''OTP expired.'',
        OTP_STORE_delete
          (snd (send_otp 123456 1000 False (signup ''user'' ''constructor'') (initial (\<lambda>c. []))))
          ''constructor'')
   \<and> fst (verify_otp 400002 400003 inserted' (attempt ''constructor'' ''123456'')
            (OTP_STORE_delete
               (snd (send_otp 123456 1000 False (signup ''user'' ''constructor'') (initial (\<lambda>c. []))))
               ''constructor''))
     = Failure ''Incorrect OTP.''"
proof -
  let ?s1 = "snd (send_otp 123456 1000 False (signup ''user'' ''constructor'') (initial (\<lambda>c. [])))"
  let ?r = "pending_record ''123456'' 1000 (signup ''user'' ''constructor'')"
  have v: "valid_request (signup ''user'' ''constructor'')" by (simp add: valid_signup)
  have got: "OTP_STORE_get ?s1 ''constructor'' = JSPending ?r"
    using send_otp_get [OF v signup_email, of 123456 1000 False "initial (\<lambda>c. [])"]
    by (simp add: generateOTP_123456)
  have late: "400000 > expiresAt ?r" by (simp add: pending_record_def)
  have given: "\<not> falsy (attempt ''constructor'' ''123456'' ''otp'')" by (simp add: attempt_simps)
  have "OTP_STORE_inherited ?s1 ''constructor'' = JSBuiltin"
    by (simp add: inherited_send_otp signup_email inherited_initial
        Object_prototype_get_def Object_prototype_def)
  then have after: "OTP_STORE_get (OTP_STORE_delete ?s1 ''constructor'') ''constructor'' = JSBuiltin"
    by (simp add: get_delete_other)
  have "fst (verify_otp 400002 400003 inserted' (attempt ''constructor'' ''123456'')
               (OTP_STORE_delete ?s1 ''constructor''))
          = Failure ''Incorrect OTP.''"
    by (simp add: verify_otp_def Let_def attempt_simps after)
  then show ?thesis
    using verify_otp_expired [OF attempt_simps(1) _ given got late, of 400001 inserted]
    by simp
qed

section \<open>Login\<close>

lemma login_store:
  "OTP_STORE (snd (login found body s)) = OTP_STORE s
   \<and> OTP_STORE_proto (snd (login found body s)) = OTP_STORE_proto s"
  by (subst (1 2) login_state) simp

lemma find_SomeD: "find P xs = Some x \<Longrightarrow> x \<in> set xs \<and> P x"
  by (induction xs) (auto split: if_splits)

lemma findOne_Found:
  "findOne docs e p = Found d \<Longrightarrow> d \<in> set docs \<and> email d = JString e \<and> password d = JString p"
  by (auto simp: findOne_def split: option.splits dest: find_SomeD)

lemma findOne_NotFound:
  "findOne docs e p = NotFound \<longleftrightarrow>
     \<not> (\<exists>d \<in> set docs. email d = JString e \<and> password d = JString p)"
  by (auto simp: findOne_def find_None_iff split: option.splits dest: find_SomeD)

lemma findOne_answers: "findOne docs e p \<noteq> FindRejected"
  by (simp add: findOne_def split: option.split)

lemma login_present:
  assumes "\<not> falsy_value (body ''role'')" and "\<not> falsy_value (body ''email'')"
    and "\<not> falsy_value (body ''password'')"
    and "collection = (if body ''role'' = VString ''shopkeeper'' then ''shopkeepers'' else ''users'')"
  shows "login found body s =
           (case found of
              FindRejected \<Rightarrow> Failure ''Server error.''
            | NotFound \<Rightarrow> Failure ''Invalid email or password.''
            | Found user \<Rightarrow> LoginSuccess ''Login successful'' (id' user) (name user)
                               (email user) (phone user) (body ''role''),
            s\<lparr>calls := calls s @ [FindOne collection (body ''email'') (body ''password'')]\<rparr>)"
  using assms by (simp add: login_def Let_def split: find_result.split)

lemma login_ignores_store:
  "fst (login found body (s\<lparr>OTP_STORE := st, OTP_STORE_proto := pr\<rparr>)) = fst (login found body s)"
  by (simp add: login_def Let_def split: find_result.split)

text \<open>
  C8 (as the code has it). Take a login request whose \<open>role\<close> passes the test of line 136
  and whose \<open>email\<close> and \<open>password\<close> are non-empty strings, and let the account store
  answer the lookup by plain equality on the two strings (\<open>findOne\<close>). The handler makes
  that lookup, with those two strings, in the collection selected by the role; the login
  succeeds if and only if that collection holds an account with exactly that email and
  password; on success the response carries the id, name, email and phone of such an
  account and the role as submitted, otherwise it is the invalid-credentials failure. No
  login request, whatever its fields and whatever the account store answers, changes the
  pending-registration store, and its response does not depend on what that store holds.
\<close>

theorem C8_login:
  assumes "\<not> falsy_value (body ''role'')"
    and "body ''email'' = VString e" and "e \<noteq> []"
    and "body ''password'' = VString p" and "p \<noteq> []"
    and "collection = (if body ''role'' = VString ''shopkeeper'' then ''shopkeepers'' else ''users'')"
    and "found = findOne (kirana_system s collection) e p"
  shows "calls (snd (login found body s)) = calls s @ [FindOne collection (VString e) (VString p)]
         \<and> (success (fst (login found body s)) \<longleftrightarrow>
               (\<exists>d \<in> set (kirana_system s collection).
                  email d = JString e \<and> password d = JString p))
         \<and> (success (fst (login found body s)) \<longrightarrow>
               (\<exists>d \<in> set (kirana_system s collection).
                  email d = JString e \<and> password d = JString p
                  \<and> fst (login found body s)
                      = LoginSuccess ''Login successful'' (id' d) (name d) (email d) (phone d)
                          (body ''role'')))
         \<and> (\<not> success (fst (login found body s)) \<longrightarrow>
               fst (login found body s) = Failure ''Invalid email or password.'')
         \<and> OTP_STORE (snd (login found' body' s)) = OTP_STORE s
         \<and> OTP_STORE_proto (snd (login found' body' s)) = OTP_STORE_proto s
         \<and> fst (login found' body' (s\<lparr>OTP_STORE := st, OTP_STORE_proto := pr\<rparr>))
             = fst (login found' body' s)"
proof -
  have present: "\<not> falsy_value (body ''email'')" "\<not> falsy_value (body ''password'')"
    using assms(2-5) by simp_all
  note run = login_present [OF assms(1) present assms(6), where s = s]
  have asked: "calls (snd (login found body s)) = calls s @ [FindOne collection (VString e) (VString p)]"
    by (simp add: run assms(2,4))
  note frame = login_store [of found' body' s]
    login_ignores_store [where found = found' and body = body' and s = s and st = st and pr = pr]
  show ?thesis
  proof (cases "findOne (kirana_system s collection) e p")
    case (Found d)
    then have "d \<in> set (kirana_system s collection) \<and> email d = JString e \<and> password d = JString p"
      by (rule findOne_Found)
    moreover have "fst (login found body s)
        = LoginSuccess ''Login successful'' (id' d) (name d) (email d) (phone d) (body ''role'')"
      by (simp add: run assms(7) Found)
    ultimately show ?thesis using asked frame by auto
  next
    case NotFound
    then have "\<not> (\<exists>d \<in> set (kirana_system s collection). email d = JString e \<and> password d = JString p)"
      unfolding findOne_NotFound by blast
    moreover have "fst (login found body s) = Failure ''Invalid email or password.''"
      by (simp add: run assms(7) NotFound)
    ultimately show ?thesis using asked frame by simp
  next
    case FindRejected
    then show ?thesis using findOne_answers [of "kirana_system s collection" e p] by simp
  qed
qed

lemma credentials_simps:
  "credentials r e p ''role'' = VString r" "credentials r e p ''email'' = VString e"
  "credentials r e p ''password'' = VString p"
  by (simp_all add: credentials_def json_body_def)

lemma one_user_account:
  "\<exists>d \<in> set (kirana_system (initial one_user) ''users'').
     email d = JString ''a@x.com'' \<and> password d = JString ''secret''"
  by (simp add: initial_def one_user_def)

theorem C8_login_witness:
  "\<not> falsy_value (credentials ''user'' ''a@x.com'' ''secret'' ''role'')
   \<and> credentials ''user'' ''a@x.com'' ''secret'' ''email'' = VString ''a@x.com''
   \<and> credentials ''user'' ''a@x.com'' ''secret'' ''password'' = VString ''secret''
   \<and> success (fst (login (findOne (kirana_system (initial one_user) ''users'') ''a@x.com'' ''secret'')
                     (credentials ''user'' ''a@x.com'' ''secret'') (initial one_user)))
   \<and> \<not> success (fst (login (findOne (kirana_system (initial one_user) ''shopkeepers'') ''a@x.com'' ''secret'')
                       (credentials ''shopkeeper'' ''a@x.com'' ''secret'') (initial one_user)))"
proof -
  let ?u = "credentials ''user'' ''a@x.com'' ''secret''"
  let ?k = "credentials ''shopkeeper'' ''a@x.com'' ''secret''"
  have u: "\<not> falsy_value (?u ''role'')" and k: "\<not> falsy_value (?k ''role'')"
    by (simp_all add: credentials_simps)
  have cu: "''users'' = (if ?u ''role'' = VString ''shopkeeper'' then ''shopkeepers'' else ''users'')"
    and ck: "''shopkeepers'' = (if ?k ''role'' = VString ''shopkeeper'' then ''shopkeepers'' else ''users'')"
    by (simp_all add: credentials_simps)
  have filled: "''a@x.com'' \<noteq> []" "''secret'' \<noteq> []" by simp_all
  note c8u = C8_login [OF u credentials_simps(2) filled(1) credentials_simps(3) filled(2) cu refl,
      where s = "initial one_user"]
  note c8k = C8_login [OF k credentials_simps(2) filled(1) credentials_simps(3) filled(2) ck refl,
      where s = "initial one_user"]
  from c8u [THEN conjunct2, THEN conjunct1]
  have "success (fst (login (findOne (kirana_system (initial one_user) ''users'') ''a@x.com'' ''secret'')
                        ?u (initial one_user)))"
    using one_user_account by simp
  moreover from c8k [THEN conjunct2, THEN conjunct1]
  have "\<not> success (fst (login (findOne (kirana_system (initial one_user) ''shopkeepers'') ''a@x.com'' ''secret'')
                           ?k (initial one_user)))"
    by (simp add: initial_def one_user_def)
  ultimately show ?thesis using u by (simp add: credentials_simps)
qed

text \<open>C8 as stated fails for an empty \<open>role\<close>: the account is in the collection that such
  a role selects (\<open>users\<close>, as every role but \<open>shopkeeper\<close>), with the email and password
  submitted, and the request is turned away at line 137.\<close>

theorem C8_empty_role_counterexample:
  "(\<exists>d \<in> set (kirana_system (initial one_user)
              (if credentials [] ''a@x.com'' ''secret'' ''role'' = VString ''shopkeeper''
               then ''shopkeepers'' else ''users'')).
      email d = JString ''a@x.com'' \<and> password d = JString ''secret'')
   \<and> credentials [] ''a@x.com'' ''secret'' ''email'' = VString ''a@x.com''
   \<and> credentials [] ''a@x.com'' ''secret'' ''password'' = VString ''secret''
   \<and> login (findOne (kirana_system (initial one_user) ''users'') ''a@x.com'' ''secret'')
         (credentials [] ''a@x.com'' ''secret'') (initial one_user)
       = (Failure ''All fields are required.'', initial one_user)
   \<and> \<not> success (Failure ''All fields are required.'')"
proof -
  have "login (findOne (kirana_system (initial one_user) ''users'') ''a@x.com'' ''secret'')
          (credentials [] ''a@x.com'' ''secret'') (initial one_user)
          = (Failure ''All fields are required.'', initial one_user)"
    by (simp add: login_def credentials_simps)
  then show ?thesis using one_user_account by (simp add: credentials_simps)
qed

text \<open>
  What the amended statement leaves out. The handler does no comparison of its own: it
  logs in whatever document the account store returns for the filter. With the object
  \<^verbatim>\<open>{"$ne": null}\<close> as \<open>email\<close> and as \<open>password\<close>, both pass line 136, the filter goes
  to the database as it is, and the document that the database finds for it (one whose two
  fields are not null) is logged in, although its fields do not equal the values submitted.
\<close>

lemma login_operator_filter:
  "login (Found d)
       (json_body [(''role'', VString ''user''), (''email'', VObject [(''$ne'', VNull)]),
                   (''password'', VObject [(''$ne'', VNull)])]) s
     = (LoginSuccess ''Login successful'' (id' d) (name d) (email d) (phone d) (VString ''user''),
        s\<lparr>calls := calls s @ [FindOne ''users'' (VObject [(''$ne'', VNull)])
                                   (VObject [(''$ne'', VNull)])]\<rparr>)"
  by (simp add: login_def json_body_def)

text \<open>
  C10 (as the code has it). The login handler does not check the role against the two
  known ones: when \<open>role\<close>, \<open>email\<close> and \<open>password\<close> all pass the test of line 136 (none
  is absent, null, false, zero or the empty string), every role but the string
  \<open>shopkeeper\<close> is looked up in \<open>users\<close>, and a successful response carries the role as it
  was submitted.
\<close>

theorem C10_login_role_not_validated:
  assumes "\<not> falsy_value (body ''role'')" and "\<not> falsy_value (body ''email'')"
    and "\<not> falsy_value (body ''password'')"
    and "body ''role'' \<noteq> VString ''shopkeeper''"
  shows "calls (snd (login found body s))
           = calls s @ [FindOne ''users'' (body ''email'') (body ''password'')]
         \<and> (\<forall>user. found = Found user \<longrightarrow>
               fst (login found body s)
               = LoginSuccess ''Login successful'' (id' user) (name user) (email user)
                   (phone user) (body ''role''))
         \<and> (\<forall>m i n e p r. fst (login found body s) = LoginSuccess m i n e p r
               \<longrightarrow> r = body ''role'')"
proof -
  have "''users'' = (if body ''role'' = VString ''shopkeeper'' then ''shopkeepers'' else ''users'')"
    using assms(4) by simp
  note run = login_present [OF assms(1-3) this, of found s]
  show ?thesis
    unfolding run by (cases found) simp_all
qed

theorem C10_login_role_not_validated_witness:
  "\<not> falsy_value (credentials ''admin'' ''a@x.com'' ''secret'' ''role'')
   \<and> \<not> falsy_value (credentials ''admin'' ''a@x.com'' ''secret'' ''email'')
   \<and> \<not> falsy_value (credentials ''admin'' ''a@x.com'' ''secret'' ''password'')
   \<and> credentials ''admin'' ''a@x.com'' ''secret'' ''role'' \<noteq> VString ''shopkeeper''
   \<and> login (findOne (kirana_system (initial one_user) ''users'') ''a@x.com'' ''secret'')
         (credentials ''admin'' ''a@x.com'' ''secret'') (initial one_user)
       = (LoginSuccess ''Login successful'' ''id1'' (JString ''Asha'') (JString ''a@x.com'')
            (JString ''9000000000'') (VString ''admin''),
          (initial one_user)
            \<lparr>calls := [FindOne ''users'' (VString ''a@x.com'') (VString ''secret'')]\<rparr>)"
proof -
  let ?b = "credentials ''admin'' ''a@x.com'' ''secret''"
  let ?asha = "\<lparr>name = JString ''Asha'', email = JString ''a@x.com'', phone = JString ''9000000000'',
                password = JString ''secret'', createdAt = 5, id' = ''id1''\<rparr>"
  let ?found = "findOne (kirana_system (initial one_user) ''users'') ''a@x.com'' ''secret''"
  have b: "\<not> falsy_value (?b ''role'')" "\<not> falsy_value (?b ''email'')"
    "\<not> falsy_value (?b ''password'')" "?b ''role'' \<noteq> VString ''shopkeeper''"
    by (simp_all add: credentials_simps)
  have found: "?found = Found ?asha"
    by (simp add: findOne_def initial_def one_user_def)
  note c10 = C10_login_role_not_validated [OF b, of ?found "initial one_user"]
  from c10 [THEN conjunct2, THEN conjunct1] found
  have response: "fst (login ?found ?b (initial one_user))
          = LoginSuccess ''Login successful'' ''id1'' (JString ''Asha'') (JString ''a@x.com'')
              (JString ''9000000000'') (VString ''admin'')"
    by (simp add: credentials_simps)
  from c10 [THEN conjunct1] have "calls (snd (login ?found ?b (initial one_user)))
          = [FindOne ''users'' (VString ''a@x.com'') (VString ''secret'')]"
    by (simp add: credentials_simps initial_def)
  then have "snd (login ?found ?b (initial one_user))
               = (initial one_user)
                   \<lparr>calls := [FindOne ''users'' (VString ''a@x.com'') (VString ''secret'')]\<rparr>"
    by (subst login_state) simp
  with response show ?thesis using b by (simp add: prod_eq_iff)
qed

text \<open>C10 as stated fails for an empty \<open>role\<close>: the three fields are present, the role is
  not \<open>shopkeeper\<close>, and the request is turned away at line 137 with no lookup in any
  collection.\<close>

theorem C10_empty_role_counterexample:
  "credentials [] ''a@x.com'' ''secret'' ''role'' \<noteq> VUndefined
   \<and> credentials [] ''a@x.com'' ''secret'' ''email'' \<noteq> VUndefined
   \<and> credentials [] ''a@x.com'' ''secret'' ''password'' \<noteq> VUndefined
   \<and> credentials [] ''a@x.com'' ''secret'' ''role'' \<noteq> VString ''shopkeeper''
   \<and> fst (login (findOne (kirana_system (initial one_user) ''users'') ''a@x.com'' ''secret'')
              (credentials [] ''a@x.com'' ''secret'') (initial one_user))
       = Failure ''All fields are required.''
   \<and> calls (snd (login (findOne (kirana_system (initial one_user) ''users'') ''a@x.com'' ''secret'')
                     (credentials [] ''a@x.com'' ''secret'') (initial one_user)))
       = []"
  by (simp add: login_def credentials_simps initial_def)

section \<open>Stored records are not changed\<close>

text \<open>No handler changes a record that the store holds: after a request, every record
  held was held before, or is the one that the request issued.\<close>

lemma held_mono:
  assumes "OTP_STORE s' \<subseteq>\<^sub>m OTP_STORE s" and "OTP_STORE_proto s' = OTP_STORE_proto s"
  shows "held s' \<subseteq> held s"
proof
  fix r assume "r \<in> held s'"
  then consider k where "OTP_STORE s' k = Some r" | "OTP_STORE_proto s' = Some r"
    unfolding held_cases by blast
  then show "r \<in> held s"
  proof cases
    case 1
    then have "OTP_STORE s k = Some r"
      using assms(1) by (auto simp: map_le_def dom_def)
    then show ?thesis unfolding held_cases by blast
  next
    case 2
    then show ?thesis unfolding held_cases using assms(2) by simp
  qed
qed

lemma held_verify_otp: "held (snd (verify_otp now created inserted body s)) \<subseteq> held s"
  using verify_otp_store [of now created inserted body s] by (intro held_mono) simp_all

lemma held_login: "held (snd (login found body s)) = held s"
  using login_store [of found body s] by (simp add: held_def)

lemma held_set: "held (OTP_STORE_set s k r) \<subseteq> insert r (held s)"
  by (auto simp: held_def OTP_STORE_set_def ran_def split: if_splits)

lemma held_calls: "held (s\<lparr>calls := c\<rparr>) = held s"
  by (simp add: held_def)

lemma held_send_otp:
  "held (snd (send_otp rnd now delivered body s))
     \<subseteq> insert (pending_record (generateOTP rnd) now body) (held s)"
proof (cases "valid_request body")
  case False
  then show ?thesis by (auto simp: send_otp_invalid)
next
  case True
  then obtain e where e: "body ''email'' = JString e"
    using valid_request_email by blast
  show ?thesis
    using held_set [of "s\<lparr>calls := calls s @ [GenerateOTP]\<rparr>" e "pending_record (generateOTP rnd) now body"]
    by (simp add: send_otp_valid [OF True e] held_calls)
qed

end
